theory Spec2Isabelle
  imports Complex_Main
begin

section \<open>Endee semantic search client: a model of main.py\<close>

text \<open>
  The program is a command-line client with two commands. \<open>ingest\<close> probes the
  server, creates the index, clears the identifier map file, reads the documents line by
  line, numbers the non-blank lines, writes \<open>id|text\<close> records to \<open>id_map.txt\<close> and
  posts the vectors in chunks of 100. \<open>search\<close> probes the server, posts the query
  vector and decodes the MessagePack reply into printed hits.

  Everything outside the program is an input of the model (the record \<open>env\<close>): what
  each HTTP call gives back (a response, or an exception raised by \<open>requests\<close>), what
  \<open>msgpack.unpackb\<close> makes of the reply body, the document files and the embedding
  function. What the program changes is the record \<open>sys\<close>: the content of
  \<open>id_map.txt\<close>, the lines printed, and the HTTP requests sent, each in order.
  A printed line is an \<open>event\<close> value that carries the values the source interpolates
  into the line.

  Strings are Isabelle strings; a character stands for a code point below 256. Floats are
  only carried around and tested for zero by the program, never computed with: they are
  modelled as reals.
\<close>

subsection \<open>Python values, as \<open>msgpack.unpackb\<close> returns them\<close>

datatype pyval =
    PNone
  | PBool bool
  | PInt int
  | PFloat real
  | PStr string
  | PBytes string
  | PList "pyval list"
  | PDict "(pyval \<times> pyval) list"

text \<open>Truth value testing of Python (\<open>if x\<close>, \<open>x or y\<close>).\<close>

fun truthy :: "pyval \<Rightarrow> bool" where
  "truthy PNone = False"
| "truthy (PBool b) = b"
| "truthy (PInt i) = (i \<noteq> 0)"
| "truthy (PFloat r) = (r \<noteq> 0)"
| "truthy (PStr s) = (s \<noteq> [])"
| "truthy (PBytes s) = (s \<noteq> [])"
| "truthy (PList xs) = (xs \<noteq> [])"
| "truthy (PDict kvs) = (kvs \<noteq> [])"

definition py_or :: "pyval \<Rightarrow> pyval \<Rightarrow> pyval" where
  "py_or a b = (if truthy a then a else b)"

text \<open>\<open>d.get(k)\<close>: the value at the key, \<open>None\<close> when the key is missing.\<close>

definition dict_get :: "(pyval \<times> pyval) list \<Rightarrow> pyval \<Rightarrow> pyval" where
  "dict_get kvs k = (case map_of kvs k of Some v \<Rightarrow> v | None \<Rightarrow> PNone)"

text \<open>\<open>str(n)\<close> for an integer: decimal digits, a minus sign for a negative number.\<close>

fun str_nat :: "nat \<Rightarrow> string" where
  "str_nat n =
     (if n < 10 then [''0123456789'' ! n]
      else str_nat (n div 10) @ [''0123456789'' ! (n mod 10)])"

declare str_nat.simps [simp del]

definition str_int :: "int \<Rightarrow> string" where
  "str_int i = (if i < 0 then CHR ''-'' # str_nat (nat (- i)) else str_nat (nat i))"

text \<open>
  \<open>str(v)\<close>. The text Python gives a float, a bytes object, a list or a dict is not
  modelled: the parameter \<open>so\<close> stands for \<open>str\<close> on those values.
\<close>

fun py_str :: "(pyval \<Rightarrow> string) \<Rightarrow> pyval \<Rightarrow> string" where
  "py_str so (PStr s) = s"
| "py_str so (PInt i) = str_int i"
| "py_str so PNone = ''None''"
| "py_str so (PBool b) = (if b then ''True'' else ''False'')"
| "py_str so v = so v"

subsection \<open>Strings: \<open>strip\<close>, \<open>split\<close>, \<open>join\<close>, lines of a text file\<close>

text \<open>\<open>str.isspace\<close> on the code points below 256.\<close>

definition is_space :: "char \<Rightarrow> bool" where
  "is_space c = (of_char c \<in> {9, 10, 11, 12, 13, 28, 29, 30, 31, 32, 133, 160 :: nat})"

definition strip :: "string \<Rightarrow> string" where
  "strip s = rev (dropWhile is_space (rev (dropWhile is_space s)))"

text \<open>\<open>s.split("|", 1)\<close>: cut at the first bar, if there is one.\<close>

definition split_bar :: "string \<Rightarrow> string list" where
  "split_bar s =
     (if CHR ''|'' \<in> set s
      then [takeWhile (\<lambda>c. c \<noteq> CHR ''|'') s, tl (dropWhile (\<lambda>c. c \<noteq> CHR ''|'') s)]
      else [s])"

fun join :: "string \<Rightarrow> string list \<Rightarrow> string" where
  "join sep [] = []"
| "join sep [x] = x"
| "join sep (x # y # ys) = x @ sep @ join sep (y # ys)"

text \<open>
  Reading a file in text mode: \<open>\r\n\<close> and \<open>\r\<close> become \<open>\n\<close>, and iterating over
  the file gives its lines, each with its line end.
\<close>

fun universal_newlines :: "string \<Rightarrow> string" where
  "universal_newlines [] = []"
| "universal_newlines [c] = (if c = CHR 0x0D then [CHR 0x0A] else [c])"
| "universal_newlines (c # d # cs) =
     (if c = CHR 0x0D
      then (if d = CHR 0x0A then CHR 0x0A # universal_newlines cs
            else CHR 0x0A # universal_newlines (d # cs))
      else c # universal_newlines (d # cs))"

fun keepends :: "string \<Rightarrow> string list" where
  "keepends [] = []"
| "keepends (c # cs) =
     (if c = CHR 0x0A then [c] # keepends cs
      else (case keepends cs of [] \<Rightarrow> [[c]] | l # ls \<Rightarrow> (c # l) # ls))"

definition file_lines :: "string \<Rightarrow> string list" where
  "file_lines c = keepends (universal_newlines c)"

subsection \<open>Exceptions\<close>

text \<open>
  The classes of exception the calls of the program raise. All of them are subclasses of
  \<open>Exception\<close>. The first eight are classes of \<open>requests.exceptions\<close>;
  \<open>ProxyError\<close>, \<open>SSLError\<close> and \<open>ConnectTimeout\<close> are subclasses of its
  \<open>ConnectionError\<close>, the other four are not.
\<close>

datatype exn =
    ConnectionError
  | ProxyError
  | SSLError
  | ConnectTimeout
  | ReadTimeout
  | TooManyRedirects
  | ChunkedEncodingError
  | ContentDecodingError
  | ImportError
  | UnpackException
  | ValueError
  | TypeError
  | IndexError

text \<open>What \<open>except requests.exceptions.ConnectionError\<close> catches.\<close>

fun is_ConnectionError :: "exn \<Rightarrow> bool" where
  "is_ConnectionError ConnectionError = True"
| "is_ConnectionError ProxyError = True"
| "is_ConnectionError SSLError = True"
| "is_ConnectionError ConnectTimeout = True"
| "is_ConnectionError _ = False"

subsection \<open>The environment and the state\<close>

record response =
  status_code :: int
  resp_text :: string
  content :: string

record vec_obj =
  vid :: string
  vector :: "real list"

datatype request =
    GetHealth
  | PostCreate string int string
  | PostInsert "vec_obj list"
  | PostSearch "real list" int bool

text \<open>The lines the program prints, in the order of the source.\<close>

datatype event =
    EndeeReachable
  | EndeeStatus int
  | CouldNotConnect
  | LoadingModel string
  | CreatingIndex string
  | IndexCreated
  | IndexExists
  | CreateFailed string
  | NoFiles
  | Processing string
  | NoData
  | Inserting nat
  | InsertedChunk nat nat
  | InsertFailed nat string
  | SearchFailed string
  | ResultsFor string
  | DebugRaw pyval
  | Hit string string pyval
  | RawResult pyval
  | DecodeError exn
  | RawBodySize nat
  | Usage
  | ProvideQuery
  | UnknownCommand

text \<open>
  \<open>insert_reply i\<close> is what the insert request of the chunk that starts at offset
  \<open>i\<close> gives back. \<open>unpackb\<close> stands for \<open>import msgpack\<close> followed by
  \<open>msgpack.unpackb\<close> on the body. \<open>data_files\<close> are the files the two globs find,
  in the order of the globs, each with what \<open>readlines\<close> returns for it. The embedding
  model is taken to load and to encode without raising, and the local files to be readable
  and writable.
\<close>

record env =
  health_reply :: "exn + response"
  create_reply :: "exn + response"
  insert_reply :: "nat \<Rightarrow> exn + response"
  search_reply :: "exn + response"
  unpackb :: "string \<Rightarrow> exn + pyval"
  data_files :: "(string \<times> string list) list"
  encode :: "string \<Rightarrow> real list"
  str_other :: "pyval \<Rightarrow> string"

text \<open>\<open>id_map_txt\<close> is the content of \<open>id_map.txt\<close>, \<open>None\<close> when there is no file.\<close>

record sys =
  id_map_txt :: "string option"
  stdout :: "event list"
  sent :: "request list"

definition print :: "event \<Rightarrow> sys \<Rightarrow> sys" where
  "print ev s = s\<lparr>stdout := stdout s @ [ev]\<rparr>"

definition send :: "request \<Rightarrow> sys \<Rightarrow> sys" where
  "send rq s = s\<lparr>sent := sent s @ [rq]\<rparr>"

text \<open>\<open>open("id_map.txt", "a")\<close> and one \<open>write\<close>: the file is created when missing.\<close>

definition append_id_map :: "string \<Rightarrow> sys \<Rightarrow> sys" where
  "append_id_map rec s =
     s\<lparr>id_map_txt := Some ((case id_map_txt s of None \<Rightarrow> [] | Some c \<Rightarrow> c) @ rec)\<rparr>"

definition INDEX_NAME :: string where
  "INDEX_NAME = ''docs_index''"

definition MODEL_NAME :: string where
  "MODEL_NAME = ''all-MiniLM-L6-v2''"

definition DIMENSION :: int where
  "DIMENSION = 384"

definition chunk_size :: nat where
  "chunk_size = 100"

subsection \<open>The health probe and the index\<close>

text \<open>
  A function of the program takes the state and returns the new state with either the
  value returned (\<open>Inr\<close>) or the exception that leaves the function (\<open>Inl\<close>).
\<close>

definition check_health :: "env \<Rightarrow> sys \<Rightarrow> sys \<times> (exn + bool)" where
  "check_health e s =
     (let s1 = send GetHealth s in
      case health_reply e of
        Inr response \<Rightarrow>
          if status_code response = 200 then (print EndeeReachable s1, Inr True)
          else (print (EndeeStatus (status_code response)) s1, Inr False)
      | Inl x \<Rightarrow>
          if is_ConnectionError x then (print CouldNotConnect s1, Inr False)
          else (s1, Inl x))"

definition get_model :: "sys \<Rightarrow> sys" where
  "get_model s = print (LoadingModel MODEL_NAME) s"

definition create_index :: "env \<Rightarrow> sys \<Rightarrow> sys \<times> (exn + unit)" where
  "create_index e s =
     (let s1 = print (CreatingIndex INDEX_NAME) s;
          s2 = send (PostCreate INDEX_NAME DIMENSION ''cosine'') s1 in
      case create_reply e of
        Inl x \<Rightarrow> (s2, Inl x)
      | Inr response \<Rightarrow>
          if status_code response = 200 then (print IndexCreated s2, Inr ())
          else if status_code response = 409 then (print IndexExists s2, Inr ())
          else (print (CreateFailed (resp_text response)) s2, Inr ()))"

subsection \<open>Ingestion\<close>

text \<open>
  The two nested loops of \<open>ingest_data\<close>. The loop state is the list \<open>vectors\<close>, the
  counter \<open>current_id\<close> and the state of the system.
\<close>

fun ingest_lines ::
  "env \<Rightarrow> string list \<Rightarrow> vec_obj list \<times> nat \<times> sys \<Rightarrow> vec_obj list \<times> nat \<times> sys" where
  "ingest_lines e [] st = st"
| "ingest_lines e (line # lines) (vectors, current_id, s) =
     (let text = strip line in
      if text = [] then ingest_lines e lines (vectors, current_id, s)
      else
        let embedding = encode e text;
            vec = \<lparr>vid = str_nat current_id, vector = embedding\<rparr>;
            s1 = append_id_map (str_nat current_id @ ''|'' @ text @ [CHR 0x0A]) s
        in ingest_lines e lines (vectors @ [vec], current_id + 1, s1))"

fun ingest_files ::
  "env \<Rightarrow> (string \<times> string list) list \<Rightarrow> vec_obj list \<times> nat \<times> sys \<Rightarrow>
     vec_obj list \<times> nat \<times> sys" where
  "ingest_files e [] st = st"
| "ingest_files e ((file_path, lines) # files) (vectors, current_id, s) =
     ingest_files e files
       (ingest_lines e lines (vectors, current_id, print (Processing file_path) s))"

text \<open>
  The batch loop \<open>for i in range(0, len(vectors), chunk_size)\<close>. An exception raised by
  the request leaves the loop; a response with any status does not.
\<close>

function insert_chunks :: "env \<Rightarrow> vec_obj list \<Rightarrow> nat \<Rightarrow> sys \<Rightarrow> sys \<times> (exn + unit)" where
  "insert_chunks e vectors i s =
     (if i < length vectors then
        (let chunk = take chunk_size (drop i vectors);
             s1 = send (PostInsert chunk) s in
         case insert_reply e i of
           Inl x \<Rightarrow> (s1, Inl x)
         | Inr response \<Rightarrow>
             insert_chunks e vectors (i + chunk_size)
               (if status_code response = 200
                then print (InsertedChunk i (i + length chunk)) s1
                else print (InsertFailed i (resp_text response)) s1))
      else (s, Inr ()))"
  by pat_completeness auto
termination
  by (relation "measure (\<lambda>(e, vectors, i, s). length vectors - i)")
     (auto simp: chunk_size_def)

declare insert_chunks.simps [simp del]

definition ingest_data :: "env \<Rightarrow> sys \<Rightarrow> sys \<times> (exn + unit)" where
  "ingest_data e s =
     (let s1 = get_model s;
          files = data_files e in
      if files = [] then (print NoFiles s1, Inr ())
      else
        (case ingest_files e files ([], 0, s1) of
           (vectors, current_id, s2) \<Rightarrow>
             if vectors = [] then (print NoData s2, Inr ())
             else insert_chunks e vectors 0 (print (Inserting (length vectors)) s2)))"

subsection \<open>Search\<close>

text \<open>Loading \<open>id_map.txt\<close>: a line without a bar is skipped, a later record wins.\<close>

definition load_id_map :: "string option \<Rightarrow> (string \<rightharpoonup> string)" where
  "load_id_map f =
     (case f of
        None \<Rightarrow> Map.empty
      | Some c \<Rightarrow>
          fold (\<lambda>line id_map.
                  (case split_bar (strip line) of
                     [k, v] \<Rightarrow> id_map(k \<mapsto> v)
                   | _ \<Rightarrow> id_map))
               (file_lines c) Map.empty)"

text \<open>
  Lines 167 to 177: the identifier and the score of one hit. A sequence shorter than two
  raises \<open>IndexError\<close>; a hit that is neither a dict nor a list leaves both \<open>None\<close>.
\<close>

fun resolve_hit :: "(pyval \<Rightarrow> string) \<Rightarrow> pyval \<Rightarrow> exn + pyval \<times> pyval" where
  "resolve_hit so (PDict res) =
     Inr (py_or (dict_get res (PStr ''id'')) (dict_get res (PStr ''label'')),
          py_or (dict_get res (PStr ''distance'')) (dict_get res (PStr ''score'')))"
| "resolve_hit so (PList []) = Inl IndexError"
| "resolve_hit so (PList [score]) = Inl IndexError"
| "resolve_hit so (PList (score # x # rest)) = Inr (PStr (py_str so x), score)"
| "resolve_hit so res = Inr (PNone, PNone)"

text \<open>\<open>id_map.get(doc_id, "Unknown Content")\<close>.\<close>

definition lookup_content :: "(string \<rightharpoonup> string) \<Rightarrow> string \<Rightarrow> string" where
  "lookup_content id_map doc_id =
     (case id_map doc_id of Some c \<Rightarrow> c | None \<Rightarrow> ''Unknown Content'')"

text \<open>The body of the loop over the hits, lines 164 to 184.\<close>

definition show_hit ::
  "(pyval \<Rightarrow> string) \<Rightarrow> (string \<rightharpoonup> string) \<Rightarrow> pyval \<Rightarrow> sys \<Rightarrow> sys \<times> (exn + unit)" where
  "show_hit so id_map res s =
     (let s1 = print (DebugRaw res) s in
      case resolve_hit so res of
        Inl x \<Rightarrow> (s1, Inl x)
      | Inr (doc_id, score) \<Rightarrow>
          if truthy doc_id then
            (let doc_id' = py_str so doc_id;
                 content = lookup_content id_map doc_id'
             in (print (Hit doc_id' (take 100 content) score) s1, Inr ()))
          else (print (RawResult res) s1, Inr ()))"

fun show_results ::
  "(pyval \<Rightarrow> string) \<Rightarrow> (string \<rightharpoonup> string) \<Rightarrow> pyval list \<Rightarrow> sys \<Rightarrow> sys \<times> (exn + unit)" where
  "show_results so id_map [] s = (s, Inr ())"
| "show_results so id_map (res # rest) s =
     (case show_hit so id_map res s of
        (s1, Inl x) \<Rightarrow> (s1, Inl x)
      | (s1, Inr u) \<Rightarrow> show_results so id_map rest s1)"

text \<open>
  \<open>for res in results\<close>: a list gives its elements, a dict its keys, a string its
  characters, a bytes object its bytes; anything else raises \<open>TypeError\<close>.
\<close>

fun py_iter :: "pyval \<Rightarrow> exn + pyval list" where
  "py_iter (PList xs) = Inr xs"
| "py_iter (PDict kvs) = Inr (map fst kvs)"
| "py_iter (PStr s) = Inr (map (\<lambda>c. PStr [c]) s)"
| "py_iter (PBytes s) = Inr (map (\<lambda>c. PInt (of_char c)) s)"
| "py_iter v = Inl TypeError"

text \<open>Line 159: \<open>isinstance(results, dict) and 'results' in results\<close>.\<close>

fun unwrap :: "pyval \<Rightarrow> pyval" where
  "unwrap (PDict kvs) =
     (case map_of kvs (PStr ''results'') of Some v \<Rightarrow> v | None \<Rightarrow> PDict kvs)"
| "unwrap v = v"

text \<open>The \<open>try\<close> block of \<open>search\<close> after the body is unpacked, lines 137 to 184.\<close>

definition show_response :: "env \<Rightarrow> string \<Rightarrow> pyval \<Rightarrow> sys \<Rightarrow> sys \<times> (exn + unit)" where
  "show_response e query results s =
     (let s1 = print (ResultsFor query) s;
          id_map = load_id_map (id_map_txt s1) in
      case py_iter (unwrap results) of
        Inl x \<Rightarrow> (s1, Inl x)
      | Inr hits \<Rightarrow> show_results (str_other e) id_map hits s1)"

definition try_decode :: "env \<Rightarrow> string \<Rightarrow> response \<Rightarrow> sys \<Rightarrow> sys \<times> (exn + unit)" where
  "try_decode e query response s =
     (case unpackb e (content response) of
        Inl x \<Rightarrow> (s, Inl x)
      | Inr results \<Rightarrow> show_response e query results s)"

definition search :: "env \<Rightarrow> string \<Rightarrow> int \<Rightarrow> sys \<Rightarrow> sys \<times> (exn + unit)" where
  "search e query k s =
     (let s1 = get_model s;
          query_vector = encode e query;
          s2 = send (PostSearch query_vector k False) s1 in
      case search_reply e of
        Inl x \<Rightarrow> (s2, Inl x)
      | Inr response \<Rightarrow>
          if status_code response \<noteq> 200 then (print (SearchFailed (resp_text response)) s2, Inr ())
          else
            (case try_decode e query response s2 of
               (s3, Inl x) \<Rightarrow>
                 (print (RawBodySize (length (content response))) (print (DecodeError x) s3),
                  Inr ())
             | (s3, Inr u) \<Rightarrow> (s3, Inr ())))"

subsection \<open>The command line\<close>

text \<open>
  How the process ends: it runs to the end of \<open>main\<close> (exit status 0), it calls
  \<open>sys.exit\<close>, or an exception leaves \<open>main\<close> (a traceback, exit status 1).
\<close>

datatype exit = Finished | SysExit int | Uncaught exn

fun exit_status :: "exit \<Rightarrow> int" where
  "exit_status Finished = 0"
| "exit_status (SysExit n) = n"
| "exit_status (Uncaught x) = 1"

fun ending :: "sys \<times> (exn + 'a) \<Rightarrow> sys \<times> exit" where
  "ending (s, Inl x) = (s, Uncaught x)"
| "ending (s, Inr v) = (s, Finished)"

definition main :: "env \<Rightarrow> string list \<Rightarrow> sys \<Rightarrow> sys \<times> exit" where
  "main e argv s =
     (if length argv < 2 then (print Usage s, SysExit 1)
      else
        (let command = argv ! 1 in
         if command = ''ingest'' then
           (case check_health e s of
              (s1, Inl x) \<Rightarrow> (s1, Uncaught x)
            | (s1, Inr False) \<Rightarrow> (s1, Finished)
            | (s1, Inr True) \<Rightarrow>
                (case create_index e s1 of
                   (s2, Inl x) \<Rightarrow> (s2, Uncaught x)
                 | (s2, Inr u) \<Rightarrow> ending (ingest_data e (s2\<lparr>id_map_txt := None\<rparr>))))
         else if command = ''search'' then
           (if length argv < 3 then (print ProvideQuery s, SysExit 1)
            else
              (let query = join '' '' (drop 2 argv) in
               case check_health e s of
                 (s1, Inl x) \<Rightarrow> (s1, Uncaught x)
               | (s1, Inr False) \<Rightarrow> (s1, Finished)
               | (s1, Inr True) \<Rightarrow> ending (search e query 5 s1)))
         else (print UnknownCommand s, Finished)))"

subsection \<open>Notions used to state the properties\<close>

text \<open>
  The text units of a file are its lines, stripped, without the empty ones; the units of a
  run are those of its files, in the order of the files.
\<close>

definition units_of :: "string list \<Rightarrow> string list" where
  "units_of lines = filter (\<lambda>text. text \<noteq> []) (map strip lines)"

definition all_units :: "(string \<times> string list) list \<Rightarrow> string list" where
  "all_units files = concat (map (\<lambda>(file_path, lines). units_of lines) files)"

text \<open>The units numbered from \<open>n\<close> on.\<close>

definition numbered :: "nat \<Rightarrow> string list \<Rightarrow> (nat \<times> string) list" where
  "numbered n ts = zip [n..<n + length ts] ts"

text \<open>The record of \<open>id_map.txt\<close> and the vector object of a numbered unit.\<close>

definition record_line :: "nat \<times> string \<Rightarrow> string" where
  "record_line = (\<lambda>(i, text). str_nat i @ ''|'' @ text @ [CHR 0x0A])"

definition vec_of :: "env \<Rightarrow> nat \<times> string \<Rightarrow> vec_obj" where
  "vec_of e = (\<lambda>(i, text). \<lparr>vid = str_nat i, vector = encode e text\<rparr>)"

text \<open>A file after the records \<open>recs\<close> are appended to it, one \<open>write\<close> each.\<close>

definition file_content :: "string option \<Rightarrow> string" where
  "file_content f = (case f of None \<Rightarrow> [] | Some c \<Rightarrow> c)"

definition written :: "string option \<Rightarrow> string list \<Rightarrow> string option" where
  "written f recs = (if recs = [] then f else Some (file_content f @ concat recs))"

text \<open>
  The number of chunks of \<open>n\<close> vectors, and the line printed for the chunk at offset
  \<open>i\<close> of \<open>n\<close> vectors when the server answers \<open>response\<close>.
\<close>

definition chunk_count :: "nat \<Rightarrow> nat" where
  "chunk_count n = (n + (chunk_size - 1)) div chunk_size"

definition chunk_line :: "nat \<Rightarrow> nat \<Rightarrow> response \<Rightarrow> event" where
  "chunk_line n i response =
     (if status_code response = 200 then InsertedChunk i (min (i + chunk_size) n)
      else InsertFailed i (resp_text response))"

text \<open>The state of a fresh process with no \<open>id_map.txt\<close>.\<close>

definition initial :: sys where
  "initial = \<lparr>id_map_txt = None, stdout = [], sent = []\<rparr>"

text \<open>The lines the loop body prints for one hit.\<close>

definition hit_lines :: "(pyval \<Rightarrow> string) \<Rightarrow> (string \<rightharpoonup> string) \<Rightarrow> pyval \<Rightarrow> event list" where
  "hit_lines so id_map res = stdout (fst (show_hit so id_map res initial))"

subsection \<open>Example inputs\<close>

definition plain_str :: "pyval \<Rightarrow> string" where
  "plain_str v = ''<object>''"

definition ok_response :: response where
  "ok_response = \<lparr>status_code = 200, resp_text = ''OK'', content = ''body''\<rparr>"

definition conflict_response :: response where
  "conflict_response = \<lparr>status_code = 409, resp_text = ''exists'', content = []\<rparr>"

definition error_response :: response where
  "error_response = \<lparr>status_code = 500, resp_text = ''boom'', content = []\<rparr>"

definition accept_all :: "nat \<Rightarrow> exn + response" where
  "accept_all i = Inr ok_response"

definition two_hits :: "string \<Rightarrow> exn + pyval" where
  "two_hits body =
     Inr (PDict [(PStr ''results'',
            PList [PDict [(PStr ''id'', PStr ''0''), (PStr ''distance'', PFloat 0.12)],
                   PList [PFloat 0.5, PInt 1]])])"

definition broken_body :: "string \<Rightarrow> exn + pyval" where
  "broken_body body = Inl UnpackException"

definition length_vector :: "string \<Rightarrow> real list" where
  "length_vector text = [real (length text)]"

definition alpha_beta :: "(string \<times> string list) list" where
  "alpha_beta =
     [(''data/a.txt'', [''Alpha'' @ [CHR 0x0A], [CHR 0x0A], ''  '' @ [CHR 0x0A], ''Beta''])]"

definition demo_env :: env where
  "demo_env =
     \<lparr>health_reply = Inr ok_response,
      create_reply = Inr ok_response,
      insert_reply = accept_all,
      search_reply = Inr ok_response,
      unpackb = two_hits,
      data_files = alpha_beta,
      encode = length_vector,
      str_other = plain_str\<rparr>"

definition second_fails_response :: "nat \<Rightarrow> response" where
  "second_fails_response i = (if i = 100 then error_response else ok_response)"

definition second_fails :: "nat \<Rightarrow> exn + response" where
  "second_fails i = Inr (second_fails_response i)"

definition big_file :: "(string \<times> string list) list" where
  "big_file = [(''data/big.txt'', replicate 250 ''x'')]"

definition gamma_file :: "(string \<times> string list) list" where
  "gamma_file = [(''data/b.md'', [''Gamma''])]"

section \<open>Properties\<close>

subsection \<open>The decoder of search hits\<close>

lemma show_hit_appends:
  "show_hit so id_map res s =
     (s\<lparr>stdout := stdout s @ hit_lines so id_map res\<rparr>, snd (show_hit so id_map res initial))"
  by (simp add: show_hit_def hit_lines_def print_def initial_def Let_def
           split: sum.splits prod.splits)

lemma show_hit_raises:
  "snd (show_hit so id_map res s) =
     (case resolve_hit so res of Inl x \<Rightarrow> Inl x | Inr r \<Rightarrow> Inr ())"
  by (simp add: show_hit_def Let_def split: sum.splits prod.splits)

lemma show_results_in_order:
  "\<forall>res \<in> set hits. \<exists>r. resolve_hit so res = Inr r \<Longrightarrow>
   show_results so id_map hits s =
     (s\<lparr>stdout := stdout s @ concat (map (hit_lines so id_map) hits)\<rparr>, Inr ())"
proof (induction hits arbitrary: s)
  case Nil
  show ?case by simp
next
  case (Cons res rest)
  from Cons.prems obtain r where r: "resolve_hit so res = Inr r" by auto
  have step: "show_hit so id_map res s = (s\<lparr>stdout := stdout s @ hit_lines so id_map res\<rparr>, Inr ())"
    using show_hit_appends [of so id_map res s] show_hit_raises [of so id_map res initial] r
    by simp
  have "show_results so id_map rest (s\<lparr>stdout := stdout s @ hit_lines so id_map res\<rparr>) =
     ((s\<lparr>stdout := stdout s @ hit_lines so id_map res\<rparr>)
        \<lparr>stdout := stdout (s\<lparr>stdout := stdout s @ hit_lines so id_map res\<rparr>)
           @ concat (map (hit_lines so id_map) rest)\<rparr>, Inr ())"
    using Cons.prems by (intro Cons.IH) simp
  with step show ?case by simp
qed

text \<open>
  C1, as the code has it. For a hit that is a mapping the identifier is the value at
  \<open>id\<close>, or the value at \<open>label\<close> when \<open>id\<close> is missing or falsy, and the score is the
  value at \<open>distance\<close>, or the value at \<open>score\<close> when \<open>distance\<close> is missing or falsy:
  \<open>distance\<close> comes first. For a hit that is a sequence of two positions or more,
  position 0 is the score and \<open>str\<close> of position 1 the identifier; the other positions
  are not read. The hits \<open>{"id": "7", "distance": 0.12}\<close> and \<open>[0.12, 7]\<close> are both
  printed with identifier \<open>"7"\<close> and score \<open>0.12\<close>.
\<close>

theorem hit_resolution:
  "resolve_hit so (PDict res) =
     Inr (if truthy (dict_get res (PStr ''id'')) then dict_get res (PStr ''id'')
          else dict_get res (PStr ''label''),
          if truthy (dict_get res (PStr ''distance'')) then dict_get res (PStr ''distance'')
          else dict_get res (PStr ''score''))
   \<and> resolve_hit so (PList (score # x # rest)) = Inr (PStr (py_str so x), score)
   \<and> show_hit so id_map (PDict [(PStr ''id'', PStr ''7''), (PStr ''distance'', PFloat 0.12)]) s =
       (print (Hit ''7'' (take 100 (lookup_content id_map ''7'')) (PFloat 0.12))
          (print (DebugRaw (PDict [(PStr ''id'', PStr ''7''), (PStr ''distance'', PFloat 0.12)])) s),
        Inr ())
   \<and> show_hit so id_map (PList [PFloat 0.12, PInt 7]) s =
       (print (Hit ''7'' (take 100 (lookup_content id_map ''7'')) (PFloat 0.12))
          (print (DebugRaw (PList [PFloat 0.12, PInt 7])) s),
        Inr ())"
  by (simp add: show_hit_def py_or_def dict_get_def str_int_def str_nat.simps Let_def)

theorem hit_resolution_witness:
  "resolve_hit plain_str (PDict [(PStr ''label'', PInt 7), (PStr ''score'', PFloat 0.12)]) =
     Inr (PInt 7, PFloat 0.12)
   \<and> resolve_hit plain_str (PList [PFloat 0.12, PInt 7, PNone]) = Inr (PStr ''7'', PFloat 0.12)
   \<and> stdout (fst (show_hit plain_str Map.empty (PList [PFloat 0.12, PInt 7]) initial)) =
       [DebugRaw (PList [PFloat 0.12, PInt 7]), Hit ''7'' ''Unknown Content'' (PFloat 0.12)]"
  using hit_resolution [of plain_str "[(PStr ''label'', PInt 7), (PStr ''score'', PFloat 0.12)]"
          "PFloat 0.12" "PInt 7" "[PNone]" Map.empty initial]
  by (simp add: dict_get_def str_int_def str_nat.simps print_def initial_def lookup_content_def)

text \<open>
  The claim C1 as stated reads \<open>score\<close> first and \<open>distance\<close> as its fallback. A hit
  that carries both keys shows the difference: the key \<open>score\<close> holds \<open>0.9\<close>, and the
  score resolved is the \<open>0.12\<close> of the key \<open>distance\<close>.
\<close>

theorem score_before_distance_counterexample:
  "dict_get [(PStr ''id'', PStr ''7''), (PStr ''score'', PFloat 0.9), (PStr ''distance'', PFloat 0.12)]
     (PStr ''score'') = PFloat 0.9
   \<and> resolve_hit plain_str
       (PDict [(PStr ''id'', PStr ''7''), (PStr ''score'', PFloat 0.9), (PStr ''distance'', PFloat 0.12)]) =
     Inr (PStr ''7'', PFloat 0.12)
   \<and> PFloat 0.12 \<noteq> PFloat 0.9"
  by (simp add: py_or_def dict_get_def)

text \<open>
  C10. In a hit that is a mapping, a falsy value at \<open>id\<close> (the integer 0, the empty
  string, \<open>None\<close>) is passed over for the value at \<open>label\<close>; when that is falsy or
  missing as well the hit is printed as a raw result, with no identifier. A \<open>distance\<close>
  of \<open>0.0\<close> is passed over for the value at \<open>score\<close>.
\<close>

theorem falsy_id_falls_through:
  "(\<not> truthy (dict_get res (PStr ''id'')) \<longrightarrow>
      (\<exists>sc. resolve_hit so (PDict res) = Inr (dict_get res (PStr ''label''), sc)))
   \<and> (\<not> truthy (dict_get res (PStr ''id'')) \<and> \<not> truthy (dict_get res (PStr ''label'')) \<longrightarrow>
        show_hit so id_map (PDict res) s =
          (print (RawResult (PDict res)) (print (DebugRaw (PDict res)) s), Inr ()))
   \<and> (dict_get res (PStr ''distance'') = PFloat 0 \<longrightarrow>
        (\<exists>d. resolve_hit so (PDict res) = Inr (d, dict_get res (PStr ''score''))))
   \<and> \<not> truthy (PInt 0) \<and> \<not> truthy (PStr '''') \<and> \<not> truthy PNone"
  by (simp add: show_hit_def py_or_def Let_def)

theorem falsy_id_falls_through_witness:
  "stdout (fst (show_hit plain_str Map.empty
       (PDict [(PStr ''id'', PInt 0), (PStr ''distance'', PFloat 0), (PStr ''score'', PFloat 0.5)])
       initial)) =
     [DebugRaw (PDict [(PStr ''id'', PInt 0), (PStr ''distance'', PFloat 0), (PStr ''score'', PFloat 0.5)]),
      RawResult (PDict [(PStr ''id'', PInt 0), (PStr ''distance'', PFloat 0), (PStr ''score'', PFloat 0.5)])]
   \<and> (\<exists>d. resolve_hit plain_str
         (PDict [(PStr ''id'', PInt 0), (PStr ''distance'', PFloat 0), (PStr ''score'', PFloat 0.5)]) =
        Inr (d, PFloat 0.5))"
  using falsy_id_falls_through
    [of "[(PStr ''id'', PInt 0), (PStr ''distance'', PFloat 0), (PStr ''score'', PFloat 0.5)]"
        plain_str Map.empty initial]
  by (simp add: dict_get_def print_def initial_def)

text \<open>
  C7. A reply that wraps the hits in a mapping under the key \<open>results\<close> is shown exactly
  as the bare sequence of the same hits is. The lines of the hits are printed in the order
  of the reply, hit by hit.
\<close>

theorem envelope_and_order:
  "show_response e query (PDict [(PStr ''results'', PList hits)]) s =
     show_response e query (PList hits) s
   \<and> (map_of kvs (PStr ''results'') = Some (PList hits) \<longrightarrow>
        show_response e query (PDict kvs) s = show_response e query (PList hits) s)
   \<and> ((\<forall>res \<in> set hits. \<exists>r. resolve_hit (str_other e) res = Inr r) \<longrightarrow>
        show_response e query (PList hits) s =
          (s\<lparr>stdout := stdout s @ ResultsFor query #
                concat (map (hit_lines (str_other e) (load_id_map (id_map_txt s))) hits)\<rparr>,
           Inr ()))"
  by (simp add: show_response_def show_results_in_order print_def Let_def)

theorem envelope_and_order_witness:
  "show_response demo_env ''q''
       (PDict [(PStr ''took'', PInt 3),
               (PStr ''results'', PList [PList [PFloat 0.5, PInt 1], PDict [(PStr ''id'', PStr ''0'')]])])
       initial =
     show_response demo_env ''q'' (PList [PList [PFloat 0.5, PInt 1], PDict [(PStr ''id'', PStr ''0'')]])
       initial
   \<and> stdout (fst (show_response demo_env ''q''
         (PList [PList [PFloat 0.5, PInt 1], PDict [(PStr ''id'', PStr ''0'')]]) initial)) =
       [ResultsFor ''q'',
        DebugRaw (PList [PFloat 0.5, PInt 1]), Hit ''1'' ''Unknown Content'' (PFloat 0.5),
        DebugRaw (PDict [(PStr ''id'', PStr ''0'')]), Hit ''0'' ''Unknown Content'' PNone]"
  using envelope_and_order
    [of demo_env "''q''" "[PList [PFloat 0.5, PInt 1], PDict [(PStr ''id'', PStr ''0'')]]" initial
        "[(PStr ''took'', PInt 3),
          (PStr ''results'', PList [PList [PFloat 0.5, PInt 1], PDict [(PStr ''id'', PStr ''0'')]])]"]
  by (simp add: hit_lines_def show_hit_def demo_env_def initial_def load_id_map_def print_def
        py_or_def dict_get_def str_int_def str_nat.simps lookup_content_def Let_def)

subsection \<open>The health probe\<close>

text \<open>
  C2, as the code has it. The probe returns true exactly when the request gives a response
  with status 200. It returns false for a response with any other status and for an
  exception that is a \<open>ConnectionError\<close> of \<open>requests\<close> (connection refused, DNS
  failure, connect timeout, proxy and SSL errors). Any other exception the request raises
  leaves the probe.
\<close>

theorem health_probe:
  "(snd (check_health e s) = Inr True \<longleftrightarrow>
      (\<exists>r. health_reply e = Inr r \<and> status_code r = 200))
   \<and> (\<forall>r. health_reply e = Inr r \<and> status_code r \<noteq> 200 \<longrightarrow>
         snd (check_health e s) = Inr False)
   \<and> (\<forall>x. health_reply e = Inl x \<and> is_ConnectionError x \<longrightarrow>
         snd (check_health e s) = Inr False)
   \<and> (\<forall>x. health_reply e = Inl x \<and> \<not> is_ConnectionError x \<longrightarrow>
         snd (check_health e s) = Inl x)"
  by (cases "health_reply e") (auto simp: check_health_def Let_def)

theorem health_probe_witness:
  "snd (check_health demo_env initial) = Inr True
   \<and> snd (check_health (demo_env\<lparr>health_reply := Inr error_response\<rparr>) initial) = Inr False
   \<and> snd (check_health (demo_env\<lparr>health_reply := Inl ConnectTimeout\<rparr>) initial) = Inr False
   \<and> snd (check_health (demo_env\<lparr>health_reply := Inl TooManyRedirects\<rparr>) initial) =
       Inl TooManyRedirects"
  using health_probe [of demo_env initial]
    health_probe [of "demo_env\<lparr>health_reply := Inr error_response\<rparr>" initial]
    health_probe [of "demo_env\<lparr>health_reply := Inl ConnectTimeout\<rparr>" initial]
    health_probe [of "demo_env\<lparr>health_reply := Inl TooManyRedirects\<rparr>" initial]
  by (simp add: demo_env_def ok_response_def error_response_def)

text \<open>
  The claim C2 as stated has the probe return false on every transport failure. Only
  \<open>ConnectionError\<close> is caught: a connection that breaks while the body is read
  (\<open>ChunkedEncodingError\<close>) and a body that cannot be decoded
  (\<open>ContentDecodingError\<close>) leave the probe as exceptions.
\<close>

theorem health_probe_counterexample:
  "snd (check_health (demo_env\<lparr>health_reply := Inl ChunkedEncodingError\<rparr>) initial) =
     Inl ChunkedEncodingError
   \<and> snd (check_health (demo_env\<lparr>health_reply := Inl ContentDecodingError\<rparr>) initial) =
     Inl ContentDecodingError"
  by (simp add: check_health_def demo_env_def Let_def)

subsection \<open>Errors of the search\<close>

text \<open>
  C8, as the code has it. When the search request gives a response, \<open>search\<close> returns
  to its caller: a status other than 200 is printed as a failed search with the text of
  the server, and every exception raised while the body is unpacked and the hits are shown
  is caught and printed together with the size of the body. An exception raised by the
  search request itself is not caught by \<open>search\<close>.
\<close>

theorem search_error_paths:
  "(\<forall>r. search_reply e = Inr r \<longrightarrow> snd (search e query k s) = Inr ())
   \<and> (\<forall>r. search_reply e = Inr r \<and> status_code r \<noteq> 200 \<longrightarrow>
         fst (search e query k s) =
           print (SearchFailed (resp_text r))
             (send (PostSearch (encode e query) k False) (get_model s)))
   \<and> (\<forall>r x s'. search_reply e = Inr r \<and> status_code r = 200 \<and>
         try_decode e query r (send (PostSearch (encode e query) k False) (get_model s)) =
           (s', Inl x) \<longrightarrow>
         fst (search e query k s) =
           print (RawBodySize (length (content r))) (print (DecodeError x) s'))
   \<and> (\<forall>x. search_reply e = Inl x \<longrightarrow> snd (search e query k s) = Inl x)"
  by (cases "search_reply e")
     (auto simp: search_def Let_def split: prod.splits sum.splits)

theorem search_error_paths_witness:
  "search (demo_env\<lparr>unpackb := broken_body\<rparr>) ''hello'' 5 initial =
     (initial\<lparr>stdout := [LoadingModel MODEL_NAME, DecodeError UnpackException, RawBodySize 4],
              sent := [PostSearch [5] 5 False]\<rparr>, Inr ())
   \<and> search (demo_env\<lparr>search_reply := Inr error_response\<rparr>) ''hello'' 5 initial =
     (initial\<lparr>stdout := [LoadingModel MODEL_NAME, SearchFailed ''boom''],
              sent := [PostSearch [5] 5 False]\<rparr>, Inr ())
   \<and> snd (search (demo_env\<lparr>search_reply := Inl SSLError\<rparr>) ''hello'' 5 initial) = Inl SSLError"
  using search_error_paths [of "demo_env\<lparr>unpackb := broken_body\<rparr>" "''hello''" 5 initial]
    search_error_paths [of "demo_env\<lparr>search_reply := Inr error_response\<rparr>" "''hello''" 5 initial]
    search_error_paths [of "demo_env\<lparr>search_reply := Inl SSLError\<rparr>" "''hello''" 5 initial]
  by (simp add: search_def try_decode_def demo_env_def broken_body_def ok_response_def
        error_response_def length_vector_def get_model_def print_def send_def initial_def Let_def)

text \<open>
  The claim C8 as stated has no exception leave \<open>search\<close>. The search request stands
  before the \<open>try\<close>: when it raises, the exception leaves \<open>search\<close> and \<open>main\<close>,
  and the process ends with it.
\<close>

theorem search_raises_counterexample:
  "snd (search (demo_env\<lparr>search_reply := Inl ConnectionError\<rparr>) ''hello'' 5 initial) =
     Inl ConnectionError
   \<and> snd (main (demo_env\<lparr>search_reply := Inl ConnectionError\<rparr>) [''main.py'', ''search'', ''hello'']
         initial) = Uncaught ConnectionError"
  by (simp add: main_def search_def check_health_def demo_env_def ok_response_def Let_def)

subsection \<open>The command line\<close>

text \<open>
  C9, as the code has it. Without a command the usage line is printed and the process
  exits with status 1. A command that is neither \<open>ingest\<close> nor \<open>search\<close> prints the
  line \<open>Unknown command.\<close>, not the usage line, and sends no request. \<open>search\<close> without
  a query prints a line and exits with status 1, and no request is sent.
\<close>

theorem command_line_errors:
  "(length argv < 2 \<longrightarrow> main e argv s = (print Usage s, SysExit 1))
   \<and> (2 \<le> length argv \<and> argv ! 1 \<noteq> ''ingest'' \<and> argv ! 1 \<noteq> ''search'' \<longrightarrow>
        fst (main e argv s) = print UnknownCommand s)
   \<and> (length argv = 2 \<and> argv ! 1 = ''search'' \<longrightarrow>
        main e argv s = (print ProvideQuery s, SysExit 1))
   \<and> sent (print ProvideQuery s) = sent s \<and> sent (print UnknownCommand s) = sent s
   \<and> exit_status (SysExit 1) = 1"
  by (simp add: main_def print_def Let_def)

theorem command_line_errors_witness:
  "main demo_env [''main.py''] initial = (print Usage initial, SysExit 1)
   \<and> fst (main demo_env [''main.py'', ''help''] initial) = print UnknownCommand initial
   \<and> main demo_env [''main.py'', ''search''] initial = (print ProvideQuery initial, SysExit 1)
   \<and> sent (fst (main demo_env [''main.py'', ''search''] initial)) = []"
  using command_line_errors [of "[''main.py'']" demo_env initial]
    command_line_errors [of "[''main.py'', ''help'']" demo_env initial]
    command_line_errors [of "[''main.py'', ''search'']" demo_env initial]
  by (simp add: initial_def print_def)

text \<open>
  The claim C9 as stated has every unknown command print the usage and exit with a status
  other than 0. The command \<open>frobnicate\<close> prints \<open>Unknown command.\<close> and \<open>main\<close>
  runs to its end, which is exit status 0.
\<close>

theorem unknown_command_counterexample:
  "main demo_env [''main.py'', ''frobnicate''] initial = (print UnknownCommand initial, Finished)
   \<and> exit_status Finished = 0
   \<and> UnknownCommand \<noteq> Usage"
  by (simp add: main_def Let_def)

subsection \<open>Ingestion: identifiers and the identifier map\<close>

lemma numbered_Nil [simp]: "numbered n [] = []"
  by (simp add: numbered_def)

lemma numbered_Cons: "numbered n (t # ts) = (n, t) # numbered (Suc n) ts"
  by (simp add: numbered_def upt_rec)

lemma numbered_append:
  "numbered n (ts @ us) = numbered n ts @ numbered (n + length ts) us"
  by (induction ts arbitrary: n) (simp_all add: numbered_Cons)

lemma length_numbered [simp]: "length (numbered n ts) = length ts"
  by (simp add: numbered_def)

lemma map_fst_numbered: "map fst (numbered n ts) = [n..<n + length ts]"
  by (simp add: numbered_def)

lemma map_snd_numbered: "map snd (numbered n ts) = ts"
  by (simp add: numbered_def)

lemma written_Nil [simp]: "written f [] = f"
  by (simp add: written_def)

lemma written_Cons: "written f (r # rs) = written (Some (file_content f @ r)) rs"
  by (simp add: written_def file_content_def)

lemma written_written: "written (written f rs) rs' = written f (rs @ rs')"
  by (induction rs arbitrary: f) (simp_all add: written_Cons)

lemma strip_empty_iff: "strip line = [] \<longleftrightarrow> (\<forall>c \<in> set line. is_space c)"
proof
  assume "strip line = []"
  then have all: "\<forall>c \<in> set (dropWhile is_space line). is_space c"
    by (simp add: strip_def dropWhile_eq_Nil_conv)
  show "\<forall>c \<in> set line. is_space c"
  proof (cases "dropWhile is_space line")
    case Nil
    then show ?thesis by (simp add: dropWhile_eq_Nil_conv)
  next
    case (Cons c cs)
    with hd_dropWhile [of is_space line] have "\<not> is_space c"
      by simp
    with Cons all show ?thesis by simp
  qed
next
  assume "\<forall>c \<in> set line. is_space c"
  then have h: "dropWhile is_space line = []"
    using dropWhile_eq_Nil_conv [of is_space line] by blast
  show "strip line = []"
    unfolding strip_def h by simp
qed

lemma ingest_lines_eq:
  "ingest_lines e lines (vectors, n, s) =
     (vectors @ map (vec_of e) (numbered n (units_of lines)),
      n + length (units_of lines),
      s\<lparr>id_map_txt := written (id_map_txt s) (map record_line (numbered n (units_of lines)))\<rparr>)"
proof (induction lines arbitrary: vectors n s)
  case Nil
  show ?case by (simp add: units_of_def)
next
  case (Cons line lines)
  show ?case
  proof (cases "strip line = []")
    case True
    then have "units_of (line # lines) = units_of lines"
      by (simp add: units_of_def)
    with True Cons.IH show ?thesis by simp
  next
    case False
    then have u: "units_of (line # lines) = strip line # units_of lines"
      by (simp add: units_of_def)
    show ?thesis
      using False
      by (simp add: u Cons.IH numbered_Cons written_Cons vec_of_def record_line_def
            append_id_map_def file_content_def Let_def)
  qed
qed

lemma ingest_files_eq:
  "ingest_files e files (vectors, n, s) =
     (vectors @ map (vec_of e) (numbered n (all_units files)),
      n + length (all_units files),
      s\<lparr>id_map_txt := written (id_map_txt s) (map record_line (numbered n (all_units files))),
        stdout := stdout s @ map (\<lambda>(file_path, lines). Processing file_path) files\<rparr>)"
proof (induction files arbitrary: vectors n s)
  case Nil
  show ?case by (simp add: all_units_def)
next
  case (Cons f files)
  obtain file_path lines where f: "f = (file_path, lines)" by (cases f)
  have a: "all_units ((file_path, lines) # files) = units_of lines @ all_units files"
    by (simp add: all_units_def)
  show ?case
    by (simp add: f a ingest_lines_eq Cons.IH numbered_append written_written print_def)
qed

lemma str_nat_nonempty: "str_nat n \<noteq> []"
  by (subst str_nat.simps) simp

lemma digit_inj:
  "a < 10 \<Longrightarrow> b < 10 \<Longrightarrow> ''0123456789'' ! a = ''0123456789'' ! b \<Longrightarrow> a = b"
  by (simp add: nth_eq_iff_index_eq)

lemma str_nat_inj: "str_nat n = str_nat m \<Longrightarrow> n = m"
proof (induction n arbitrary: m rule: str_nat.induct)
  case (1 n)
  show ?case
  proof (cases "n < 10")
    case small_n: True
    show ?thesis
    proof (cases "m < 10")
      case True
      with small_n "1.prems" show ?thesis
        by (simp add: str_nat.simps [of n] str_nat.simps [of m] digit_inj)
    next
      case False
      with small_n "1.prems" str_nat_nonempty [of "m div 10"] show ?thesis
        by (simp add: str_nat.simps [of n] str_nat.simps [of m])
    qed
  next
    case big_n: False
    show ?thesis
    proof (cases "m < 10")
      case True
      with big_n "1.prems" str_nat_nonempty [of "n div 10"] show ?thesis
        by (simp add: str_nat.simps [of n] str_nat.simps [of m])
    next
      case False
      with big_n "1.prems"
      have eq: "str_nat (n div 10) = str_nat (m div 10)"
        and d: "''0123456789'' ! (n mod 10) = ''0123456789'' ! (m mod 10)"
        by (simp_all add: str_nat.simps [of n] str_nat.simps [of m])
      from "1.IH" [OF big_n eq] have "n div 10 = m div 10" .
      moreover from d have "n mod 10 = m mod 10"
        by (intro digit_inj) simp_all
      ultimately show ?thesis
        by (metis div_mult_mod_eq)
    qed
  qed
qed

lemma distinct_ids: "distinct (map str_nat [n..<m])"
  by (auto simp: distinct_map inj_on_def dest: str_nat_inj)

lemma vid_vec_of: "map vid (map (vec_of e) ps) = map str_nat (map fst ps)"
  by (induction ps) (auto simp: vec_of_def)

lemma vector_vec_of: "map vector (map (vec_of e) ps) = map (encode e) (map snd ps)"
  by (induction ps) (auto simp: vec_of_def)

text \<open>
  C5. The two loops of a run give the non-empty text units, over all the files in order,
  the identifiers \<open>0, 1, 2, ...\<close> without gap or repeat: the vectors carry them as
  strings, and the identifier map gets one record \<open>id|text\<close> for each. A line that is
  empty or holds white space only is no unit and takes no identifier. A file with the lines
  \<open>Alpha\<close>, an empty line and \<open>Beta\<close> gives the records \<open>0|Alpha\<close> and \<open>1|Beta\<close>.
\<close>

theorem identifiers_contiguous:
  "(ingest_files e files ([], 0, s) = (vectors, n, s') \<longrightarrow>
      n = length (all_units files)
      \<and> map vid vectors = map str_nat [0..<n]
      \<and> distinct (map vid vectors)
      \<and> map vector vectors = map (encode e) (all_units files)
      \<and> id_map_txt s' =
          written (id_map_txt s) (map record_line (zip [0..<n] (all_units files))))
   \<and> units_of lines = map strip (filter (\<lambda>line. \<not> (\<forall>c \<in> set line. is_space c)) lines)
   \<and> ingest_files e [(file_path, [''Alpha'' @ [CHR 0x0A], [CHR 0x0A], ''Beta'' @ [CHR 0x0A]])]
        ([], 0, s) =
       ([\<lparr>vid = ''0'', vector = encode e ''Alpha''\<rparr>, \<lparr>vid = ''1'', vector = encode e ''Beta''\<rparr>],
        2,
        s\<lparr>id_map_txt :=
             Some (file_content (id_map_txt s) @
                   ''0|Alpha'' @ [CHR 0x0A] @ ''1|Beta'' @ [CHR 0x0A]),
           stdout := stdout s @ [Processing file_path]\<rparr>)"
proof (intro conjI impI)
  assume run: "ingest_files e files ([], 0, s) = (vectors, n, s')"
  then have v: "vectors = map (vec_of e) (numbered 0 (all_units files))"
    and n: "n = length (all_units files)"
    and s': "s' = s\<lparr>id_map_txt :=
                written (id_map_txt s) (map record_line (numbered 0 (all_units files))),
              stdout := stdout s @ map (\<lambda>(file_path, lines). Processing file_path) files\<rparr>"
    by (simp_all add: ingest_files_eq)
  show "n = length (all_units files)" by (rule n)
  show ids: "map vid vectors = map str_nat [0..<n]"
    unfolding v n vid_vec_of map_fst_numbered by simp
  show "distinct (map vid vectors)"
    unfolding ids by (rule distinct_ids)
  show "map vector vectors = map (encode e) (all_units files)"
    unfolding v vector_vec_of map_snd_numbered by simp
  show "id_map_txt s' = written (id_map_txt s) (map record_line (zip [0..<n] (all_units files)))"
    by (simp add: s' n numbered_def)
next
  show "units_of lines = map strip (filter (\<lambda>line. \<not> (\<forall>c \<in> set line. is_space c)) lines)"
    by (induction lines) (simp_all add: units_of_def strip_empty_iff)
next
  show "ingest_files e [(file_path, [''Alpha'' @ [CHR 0x0A], [CHR 0x0A], ''Beta'' @ [CHR 0x0A]])]
        ([], 0, s) =
       ([\<lparr>vid = ''0'', vector = encode e ''Alpha''\<rparr>, \<lparr>vid = ''1'', vector = encode e ''Beta''\<rparr>],
        2,
        s\<lparr>id_map_txt :=
             Some (file_content (id_map_txt s) @
                   ''0|Alpha'' @ [CHR 0x0A] @ ''1|Beta'' @ [CHR 0x0A]),
           stdout := stdout s @ [Processing file_path]\<rparr>)"
    by (simp add: strip_def is_space_def str_nat.simps append_id_map_def file_content_def
          print_def Let_def)
qed

theorem identifiers_contiguous_witness:
  "fst (ingest_files demo_env (alpha_beta @ gamma_file) ([], 0, initial)) =
     [\<lparr>vid = ''0'', vector = [5]\<rparr>, \<lparr>vid = ''1'', vector = [4]\<rparr>, \<lparr>vid = ''2'', vector = [5]\<rparr>]
   \<and> id_map_txt (snd (snd (ingest_files demo_env (alpha_beta @ gamma_file) ([], 0, initial)))) =
       Some (''0|Alpha'' @ [CHR 0x0A] @ ''1|Beta'' @ [CHR 0x0A] @ ''2|Gamma'' @ [CHR 0x0A])
   \<and> map vid (fst (ingest_files demo_env (alpha_beta @ gamma_file) ([], 0, initial))) =
       map str_nat [0..<3]
   \<and> distinct (map vid (fst (ingest_files demo_env (alpha_beta @ gamma_file) ([], 0, initial))))"
  using identifiers_contiguous
    [of demo_env "alpha_beta @ gamma_file" initial
        "fst (ingest_files demo_env (alpha_beta @ gamma_file) ([], 0, initial))"
        "fst (snd (ingest_files demo_env (alpha_beta @ gamma_file) ([], 0, initial)))"
        "snd (snd (ingest_files demo_env (alpha_beta @ gamma_file) ([], 0, initial)))"
        "[]" "''data/a.txt''"]
  by (simp add: alpha_beta_def gamma_file_def demo_env_def length_vector_def initial_def
        strip_def is_space_def str_nat.simps append_id_map_def print_def all_units_def
        units_of_def Let_def written_def record_line_def file_content_def upt_rec)

subsection \<open>Ingestion: the batch loop\<close>

lemma count_step:
  "i < n \<Longrightarrow> (n - i + 99) div 100 = Suc ((n - (i + 100) + 99) div (100::nat))"
proof (cases "n - i \<le> 100")
  case True
  assume "i < n"
  with True have "(n - i + 99) div 100 = 1"
    by (intro div_nat_eqI) simp_all
  moreover from True have "(n - (i + 100) + 99) div 100 = 0"
    by simp
  ultimately show ?thesis by simp
next
  case False
  then have "n - i + 99 = (n - (i + 100) + 99) + 100"
    by simp
  then show ?thesis
    by (simp only: div_add_self2)
qed

lemma upt_0_Suc_map: "[0..<Suc m] = 0 # map Suc [0..<m]"
  unfolding map_Suc_upt by (rule upt_conv_Cons) simp

lemma insert_chunks_eq:
  "(\<And>j. insert_reply e j = Inr (rs j)) \<Longrightarrow>
   insert_chunks e vectors i s =
     (s\<lparr>stdout := stdout s @
           map (\<lambda>k. chunk_line (length vectors) (i + chunk_size * k) (rs (i + chunk_size * k)))
             [0..<chunk_count (length vectors - i)],
         sent := sent s @
           map (\<lambda>k. PostInsert (take chunk_size (drop (i + chunk_size * k) vectors)))
             [0..<chunk_count (length vectors - i)]\<rparr>,
      Inr ())"
proof (induction e vectors i s rule: insert_chunks.induct)
  case (1 e vectors i s)
  note reply = "1.prems"
  show ?case
  proof (cases "i < length vectors")
    case False
    then show ?thesis
      by (simp add: insert_chunks.simps [of e vectors i s] chunk_count_def chunk_size_def)
  next
    case True
    have c: "chunk_count (length vectors - i) =
        Suc (chunk_count (length vectors - (i + chunk_size)))"
      using True count_step [of i "length vectors"] by (simp add: chunk_count_def chunk_size_def)
    have len: "i + length (take chunk_size (drop i vectors)) =
        min (i + chunk_size) (length vectors)"
      using True by (cases "length vectors - i \<le> chunk_size") auto
    define s' where "s' =
       (if status_code (rs i) = 200
        then print (InsertedChunk i (i + length (take chunk_size (drop i vectors))))
               (send (PostInsert (take chunk_size (drop i vectors))) s)
        else print (InsertFailed i (resp_text (rs i)))
               (send (PostInsert (take chunk_size (drop i vectors))) s))"
    have s': "s' = s\<lparr>stdout := stdout s @ [chunk_line (length vectors) i (rs i)],
                       sent := sent s @ [PostInsert (take chunk_size (drop i vectors))]\<rparr>"
      unfolding s'_def chunk_line_def print_def send_def len by simp
    have step: "insert_chunks e vectors i s = insert_chunks e vectors (i + chunk_size) s'"
      by (subst insert_chunks.simps) (simp add: True reply s'_def Let_def)
    have "insert_chunks e vectors (i + chunk_size) s' =
      (s'\<lparr>stdout := stdout s' @
           map (\<lambda>k. chunk_line (length vectors) (i + chunk_size + chunk_size * k)
                  (rs (i + chunk_size + chunk_size * k)))
             [0..<chunk_count (length vectors - (i + chunk_size))],
         sent := sent s' @
           map (\<lambda>k. PostInsert (take chunk_size (drop (i + chunk_size + chunk_size * k) vectors)))
             [0..<chunk_count (length vectors - (i + chunk_size))]\<rparr>,
       Inr ())"
      unfolding s'_def using "1.IH" [OF True refl refl reply reply] .
    then have IH': "insert_chunks e vectors (i + chunk_size) s' =
      (s\<lparr>stdout := stdout s @ chunk_line (length vectors) i (rs i) #
           map (\<lambda>k. chunk_line (length vectors) (i + chunk_size + chunk_size * k)
                  (rs (i + chunk_size + chunk_size * k)))
             [0..<chunk_count (length vectors - (i + chunk_size))],
         sent := sent s @ PostInsert (take chunk_size (drop i vectors)) #
           map (\<lambda>k. PostInsert (take chunk_size (drop (i + chunk_size + chunk_size * k) vectors)))
             [0..<chunk_count (length vectors - (i + chunk_size))]\<rparr>,
       Inr ())"
      by (simp add: s')
    have idx: "\<And>k. i + chunk_size * Suc k = i + chunk_size + chunk_size * k"
      by simp
    show ?thesis
      by (simp only: step c upt_0_Suc_map IH' list.map map_map comp_def idx
            mult_0_right add_0_right)
  qed
qed

lemma insert_chunks_id_map: "id_map_txt (fst (insert_chunks e vectors i s)) = id_map_txt s"
proof (induction e vectors i s rule: insert_chunks.induct)
  case (1 e vectors i s)
  show ?case
  proof (cases "i < length vectors")
    case False
    then show ?thesis
      by (simp add: insert_chunks.simps [of e vectors i s])
  next
    case True
    show ?thesis
    proof (cases "insert_reply e i")
      case (Inl x)
      with True show ?thesis
        by (simp add: insert_chunks.simps [of e vectors i s] send_def Let_def)
    next
      case (Inr response)
      define s' where "s' =
         (if status_code response = 200
          then print (InsertedChunk i (i + length (take chunk_size (drop i vectors))))
                 (send (PostInsert (take chunk_size (drop i vectors))) s)
          else print (InsertFailed i (resp_text response))
                 (send (PostInsert (take chunk_size (drop i vectors))) s))"
      have "insert_chunks e vectors i s = insert_chunks e vectors (i + chunk_size) s'"
        by (subst insert_chunks.simps) (simp add: True Inr s'_def Let_def)
      moreover have "id_map_txt (fst (insert_chunks e vectors (i + chunk_size) s')) = id_map_txt s'"
        unfolding s'_def by (rule "1.IH" [OF True refl refl Inr])
      moreover have "id_map_txt s' = id_map_txt s"
        by (simp add: s'_def print_def send_def)
      ultimately show ?thesis by simp
    qed
  qed
qed

lemma ingest_data_id_map:
  "id_map_txt (fst (ingest_data e s)) =
     written (id_map_txt s) (map record_line (numbered 0 (all_units (data_files e))))"
proof (cases "data_files e = []")
  case True
  then show ?thesis
    by (simp add: ingest_data_def get_model_def print_def all_units_def Let_def)
next
  case False
  then show ?thesis
    by (simp add: ingest_data_def ingest_files_eq insert_chunks_id_map get_model_def
          print_def Let_def)
qed

lemma numbered_eq_Nil [simp]: "numbered n ts = [] \<longleftrightarrow> ts = []"
  by (cases ts) (simp_all add: numbered_Cons)

lemma ingest_data_eq:
  assumes "\<And>j. insert_reply e j = Inr (rs j)" and "all_units (data_files e) \<noteq> []"
  shows "ingest_data e s =
     (s\<lparr>id_map_txt :=
          written (id_map_txt s) (map record_line (numbered 0 (all_units (data_files e)))),
        stdout := stdout s @ LoadingModel MODEL_NAME #
          map (\<lambda>(file_path, lines). Processing file_path) (data_files e) @
          Inserting (length (all_units (data_files e))) #
          map (\<lambda>k. chunk_line (length (all_units (data_files e))) (chunk_size * k)
                 (rs (chunk_size * k)))
            [0..<chunk_count (length (all_units (data_files e)))],
        sent := sent s @
          map (\<lambda>k. PostInsert (take chunk_size (drop (chunk_size * k)
                 (map (vec_of e) (numbered 0 (all_units (data_files e)))))))
            [0..<chunk_count (length (all_units (data_files e)))]\<rparr>,
      Inr ())"
proof -
  from assms(2) have files: "data_files e \<noteq> []"
    by (auto simp: all_units_def)
  show ?thesis
    using files assms(2)
    by (simp add: ingest_data_def ingest_files_eq insert_chunks_eq [of e rs, OF assms(1)]
          get_model_def print_def Let_def)
qed


text \<open>
  C4, as the code has it. When every insert request gets a response, whatever its status,
  \<open>ingest_data\<close> returns without an exception, every chunk of 100 vectors is posted, in
  order, and each chunk gets its own line: the range of a chunk answered with 200, the
  offset and the text of the server for any other status. The only count printed is the
  number of all vectors, before the first insert request.
\<close>

theorem chunk_failures_do_not_abort:
  "(\<forall>j. insert_reply e j = Inr (rs j)) \<and> all_units (data_files e) \<noteq> [] \<longrightarrow>
     snd (ingest_data e s) = Inr ()
     \<and> sent (fst (ingest_data e s)) =
         sent s @
         map (\<lambda>k. PostInsert (take chunk_size (drop (chunk_size * k)
                (map (vec_of e) (numbered 0 (all_units (data_files e)))))))
           [0..<chunk_count (length (all_units (data_files e)))]
     \<and> stdout (fst (ingest_data e s)) =
         stdout s @ LoadingModel MODEL_NAME #
         map (\<lambda>(file_path, lines). Processing file_path) (data_files e) @
         Inserting (length (all_units (data_files e))) #
         map (\<lambda>k. chunk_line (length (all_units (data_files e))) (chunk_size * k)
                (rs (chunk_size * k)))
           [0..<chunk_count (length (all_units (data_files e)))]"
  by (simp add: ingest_data_eq [of e rs])

lemma big_file_units: "all_units big_file = replicate 250 ''x''"
  by (simp add: big_file_def all_units_def units_of_def strip_def is_space_def)

lemma three_chunks: "[0..<chunk_count 250] = [0, 1, 2]"
  by (simp add: chunk_count_def chunk_size_def upt_rec)

theorem chunk_failures_do_not_abort_witness:
  "snd (ingest_data (demo_env\<lparr>data_files := big_file, insert_reply := second_fails\<rparr>) initial) =
     Inr ()
   \<and> length (sent (fst (ingest_data (demo_env\<lparr>data_files := big_file, insert_reply := second_fails\<rparr>)
        initial))) = 3
   \<and> stdout (fst (ingest_data (demo_env\<lparr>data_files := big_file, insert_reply := second_fails\<rparr>)
        initial)) =
       [LoadingModel MODEL_NAME, Processing ''data/big.txt'', Inserting 250,
        InsertedChunk 0 100, InsertFailed 100 ''boom'', InsertedChunk 200 250]"
proof -
  let ?e = "demo_env\<lparr>data_files := big_file, insert_reply := second_fails\<rparr>"
  have replies: "\<forall>j. insert_reply ?e j = Inr (second_fails_response j)"
    by (simp add: second_fails_def)
  have units: "all_units (data_files ?e) = replicate 250 ''x''"
    by (simp add: big_file_units)
  from chunk_failures_do_not_abort [of ?e second_fails_response initial] replies units
  show ?thesis
    by (simp add: three_chunks)
       (simp add: big_file_def initial_def chunk_line_def chunk_size_def
          second_fails_response_def ok_response_def error_response_def)
qed

text \<open>
  The claim C4 as stated has a final count that reflects the chunks that went through. Of
  250 vectors in three chunks, the second chunk is answered with 500: the only count in
  the output is the 250 printed before the first request.
\<close>

theorem no_final_count_counterexample:
  "stdout (fst (ingest_data (demo_env\<lparr>data_files := big_file, insert_reply := second_fails\<rparr>)
        initial)) =
     [LoadingModel MODEL_NAME, Processing ''data/big.txt'', Inserting 250,
      InsertedChunk 0 100, InsertFailed 100 ''boom'', InsertedChunk 200 250]"
proof -
  let ?e = "demo_env\<lparr>data_files := big_file, insert_reply := second_fails\<rparr>"
  have replies: "\<And>j. insert_reply ?e j = Inr (second_fails_response j)"
    by (simp add: second_fails_def)
  have units: "all_units (data_files ?e) = replicate 250 ''x''"
    by (simp add: big_file_units)
  have "all_units (data_files ?e) \<noteq> []"
    unfolding units by simp
  from ingest_data_eq [of ?e second_fails_response initial, OF replies this]
  show ?thesis
    by (simp add: big_file_units three_chunks)
       (simp add: big_file_def initial_def chunk_line_def chunk_size_def
          second_fails_response_def ok_response_def error_response_def)
qed

subsection \<open>The ingest command\<close>

lemma fst_ending: "fst (ending x) = fst x"
  by (cases x rule: ending.cases) simp_all

lemma main_ingest:
  "health_reply e = Inr h \<Longrightarrow> status_code h = 200 \<Longrightarrow> create_reply e = Inr c \<Longrightarrow>
   main e [prog, ''ingest''] s =
     ending (ingest_data e ((fst (create_index e (fst (check_health e s))))\<lparr>id_map_txt := None\<rparr>))"
  by (simp add: main_def check_health_def create_index_def Let_def)

lemma main_ingest_id_map:
  "health_reply e = Inr h \<Longrightarrow> status_code h = 200 \<Longrightarrow> create_reply e = Inr c \<Longrightarrow>
   id_map_txt (fst (main e [prog, ''ingest''] s)) =
     written None (map record_line (numbered 0 (all_units (data_files e))))"
  by (simp add: main_ingest fst_ending ingest_data_id_map)

text \<open>
  C3, as the code has it. Whatever status the request that creates the index is answered
  with, \<open>create_index\<close> prints one line for it and returns, and the ingest command goes
  on: it clears the identifier map and runs \<open>ingest_data\<close>. Status 409 prints that the
  index exists; any status other than 200 and 409 prints the failure with the text of the
  server, and ingestion proceeds all the same.
\<close>

theorem index_creation_never_aborts:
  "health_reply e = Inr h \<and> status_code h = 200 \<and> create_reply e = Inr c \<longrightarrow>
     main e [prog, ''ingest''] s =
       ending (ingest_data e
         ((fst (create_index e (fst (check_health e s))))\<lparr>id_map_txt := None\<rparr>))
     \<and> create_index e s1 =
         (print (if status_code c = 200 then IndexCreated
                 else if status_code c = 409 then IndexExists
                 else CreateFailed (resp_text c))
            (send (PostCreate INDEX_NAME DIMENSION ''cosine'') (print (CreatingIndex INDEX_NAME) s1)),
          Inr ())"
  by (simp add: main_ingest create_index_def Let_def)

theorem index_creation_never_aborts_witness:
  "main (demo_env\<lparr>create_reply := Inr conflict_response\<rparr>) [''main.py'', ''ingest''] initial =
     (\<lparr>id_map_txt = Some (''0|Alpha'' @ [CHR 0x0A] @ ''1|Beta'' @ [CHR 0x0A]),
       stdout = [EndeeReachable, CreatingIndex INDEX_NAME, IndexExists, LoadingModel MODEL_NAME,
                 Processing ''data/a.txt'', Inserting 2, InsertedChunk 0 2],
       sent = [GetHealth, PostCreate INDEX_NAME DIMENSION ''cosine'',
               PostInsert [\<lparr>vid = ''0'', vector = [5]\<rparr>, \<lparr>vid = ''1'', vector = [4]\<rparr>]]\<rparr>,
      Finished)"
  using index_creation_never_aborts
    [of "demo_env\<lparr>create_reply := Inr conflict_response\<rparr>" ok_response conflict_response
        "''main.py''" initial "fst (check_health (demo_env\<lparr>create_reply := Inr conflict_response\<rparr>) initial)"]
  by (simp add: demo_env_def ok_response_def conflict_response_def)
     (simp add: ingest_data_def check_health_def alpha_beta_def initial_def get_model_def
        print_def send_def strip_def is_space_def str_nat.simps append_id_map_def
        insert_chunks.simps chunk_size_def accept_all_def ok_response_def length_vector_def
        Let_def)

text \<open>
  The claim C3 as stated has a failure to create a fresh index abort the ingestion. With
  the creation answered by status 500 the failure is printed and the vectors are posted
  all the same; the command runs to its end.
\<close>

theorem creation_failure_counterexample:
  "sent (fst (main (demo_env\<lparr>create_reply := Inr error_response\<rparr>) [''main.py'', ''ingest'']
        initial)) =
     [GetHealth, PostCreate INDEX_NAME DIMENSION ''cosine'',
      PostInsert [\<lparr>vid = ''0'', vector = [5]\<rparr>, \<lparr>vid = ''1'', vector = [4]\<rparr>]]
   \<and> stdout (fst (main (demo_env\<lparr>create_reply := Inr error_response\<rparr>) [''main.py'', ''ingest'']
        initial)) =
     [EndeeReachable, CreatingIndex INDEX_NAME, CreateFailed ''boom'', LoadingModel MODEL_NAME,
      Processing ''data/a.txt'', Inserting 2, InsertedChunk 0 2]
   \<and> snd (main (demo_env\<lparr>create_reply := Inr error_response\<rparr>) [''main.py'', ''ingest''] initial) =
     Finished"
  by (simp add: main_def create_index_def ingest_data_def check_health_def demo_env_def
        error_response_def alpha_beta_def initial_def get_model_def
        print_def send_def strip_def is_space_def str_nat.simps append_id_map_def
        insert_chunks.simps chunk_size_def accept_all_def ok_response_def length_vector_def
        Let_def)

text \<open>
  C6. An ingest run that passes the health probe and gets a response to the creation of
  the index removes \<open>id_map.txt\<close> before it writes a record. After a second run the
  file holds the records of the second run and nothing else, whatever the first run left:
  it is the file the second run writes when there is none before.
\<close>

theorem second_run_replaces_store:
  "health_reply e2 = Inr h \<and> status_code h = 200 \<and> create_reply e2 = Inr c \<longrightarrow>
     id_map_txt (fst (main e2 [prog2, ''ingest''] (fst (main e1 [prog1, ''ingest''] s)))) =
       written None (map record_line (numbered 0 (all_units (data_files e2))))
     \<and> id_map_txt (fst (main e2 [prog2, ''ingest''] (fst (main e1 [prog1, ''ingest''] s)))) =
         id_map_txt (fst (main e2 [prog2, ''ingest''] initial))"
  by (simp add: main_ingest_id_map)

theorem second_run_replaces_store_witness:
  "id_map_txt (fst (main demo_env [''main.py'', ''ingest''] initial)) =
     Some (''0|Alpha'' @ [CHR 0x0A] @ ''1|Beta'' @ [CHR 0x0A])
   \<and> id_map_txt (fst (main (demo_env\<lparr>data_files := gamma_file\<rparr>) [''main.py'', ''ingest'']
        (fst (main demo_env [''main.py'', ''ingest''] initial)))) =
     Some (''0|Gamma'' @ [CHR 0x0A])"
proof -
  have first: "id_map_txt (fst (main demo_env [''main.py'', ''ingest''] initial)) =
     Some (''0|Alpha'' @ [CHR 0x0A] @ ''1|Beta'' @ [CHR 0x0A])"
    by (simp add: main_def create_index_def ingest_data_def check_health_def demo_env_def
        alpha_beta_def initial_def get_model_def
        print_def send_def strip_def is_space_def str_nat.simps append_id_map_def
        insert_chunks.simps chunk_size_def accept_all_def ok_response_def length_vector_def
        Let_def)
  have units: "all_units gamma_file = [''Gamma'']"
    by (simp add: gamma_file_def all_units_def units_of_def strip_def is_space_def)
  from second_run_replaces_store
    [of "demo_env\<lparr>data_files := gamma_file\<rparr>" ok_response ok_response
        "''main.py''" demo_env "''main.py''" initial]
  have "id_map_txt (fst (main (demo_env\<lparr>data_files := gamma_file\<rparr>) [''main.py'', ''ingest'']
        (fst (main demo_env [''main.py'', ''ingest''] initial)))) =
     Some (''0|Gamma'' @ [CHR 0x0A])"
    by (simp add: demo_env_def ok_response_def units written_def record_line_def numbered_def
          file_content_def str_nat.simps)
  with first show ?thesis by simp
qed

end
